theory Spec2Isabelle
  imports Complex_Main "HOL-Library.Sublist"
begin

section \<open>Text primitives of the Python source\<close>

text \<open>
  The program (\<^verbatim>\<open>backend/app.py\<close>) works on Python \<^verbatim>\<open>str\<close> values. A text is modelled
  as a \<^typ>\<open>string\<close>. Case folding and the whitespace class are those of Python on
  ASCII text: \<^verbatim>\<open>str.lower\<close> maps \<^verbatim>\<open>A\<close>..\<^verbatim>\<open>Z\<close> to \<^verbatim>\<open>a\<close>..\<^verbatim>\<open>z\<close>, and
  \<^verbatim>\<open>str.strip\<close>/\<^verbatim>\<open>str.split\<close> without argument treat the codes 9..13, 28..31 and 32 as
  whitespace. A character with a code above 127 is kept as it is and is no whitespace.
  An upper-case letter has bit 5 clear; its lower-case letter is the same code with bit 5
  set (the code plus 32).
\<close>

definition is_space :: "char \<Rightarrow> bool" where
  "is_space c = (let n = (of_char c :: nat) in (9 \<le> n \<and> n \<le> 13) \<or> (28 \<le> n \<and> n \<le> 32))"

definition lower_char :: "char \<Rightarrow> char" where
  "lower_char c =
     (let n = (of_char c :: nat)
      in if 65 \<le> n \<and> n \<le> 90
         then Char (digit0 c) (digit1 c) (digit2 c) (digit3 c) (digit4 c) True (digit6 c) (digit7 c)
         else c)"

text \<open>\<^verbatim>\<open>s.lower()\<close>\<close>

definition lower :: "string \<Rightarrow> string" where
  "lower s = map lower_char s"

text \<open>\<^verbatim>\<open>s.strip()\<close>: whitespace removed at both ends.\<close>

definition strip :: "string \<Rightarrow> string" where
  "strip s = rev (dropWhile is_space (rev (dropWhile is_space s)))"

text \<open>
  \<^verbatim>\<open>s.split()\<close>: the maximal runs of non-whitespace characters, in order. The first
  argument is the token read so far.
\<close>

fun split_from :: "string \<Rightarrow> string \<Rightarrow> string list" where
  "split_from cur [] = (if cur = [] then [] else [cur])"
| "split_from cur (c # cs) =
     (if is_space c then (if cur = [] then split_from [] cs else cur # split_from [] cs)
      else split_from (cur @ [c]) cs)"

definition split :: "string \<Rightarrow> string list" where
  "split s = split_from [] s"

text \<open>\<^verbatim>\<open>sep.join(ws)\<close>\<close>

fun join :: "string \<Rightarrow> string list \<Rightarrow> string" where
  "join sep [] = []"
| "join sep [w] = w"
| "join sep (w # v # ws) = w @ sep @ join sep (v # ws)"

text \<open>\<^verbatim>\<open>sub in s\<close>: \<open>sub\<close> occurs in \<open>s\<close> as a contiguous piece.\<close>

fun contains :: "string \<Rightarrow> string \<Rightarrow> bool" where
  "contains sub [] = (sub = [])"
| "contains sub (c # cs) = (prefix sub (c # cs) \<or> contains sub cs)"

text \<open>
  \<^verbatim>\<open>s.index(sub)\<close> and \<^verbatim>\<open>s.rfind(sub)\<close>: the position of the first and of the last
  occurrence. The source calls both only under the guard \<^verbatim>\<open>sub in s\<close>; here the guard and
  the search are one scan, \<open>None\<close> standing for the guard being false.
\<close>

fun index_of :: "string \<Rightarrow> string \<Rightarrow> nat option" where
  "index_of sub [] = (if sub = [] then Some 0 else None)"
| "index_of sub (c # cs) =
     (if prefix sub (c # cs) then Some 0 else map_option Suc (index_of sub cs))"

fun rfind :: "string \<Rightarrow> string \<Rightarrow> nat option" where
  "rfind sub [] = (if sub = [] then Some 0 else None)"
| "rfind sub (c # cs) =
     (case rfind sub cs of
        Some i \<Rightarrow> Some (Suc i)
      | None \<Rightarrow> if prefix sub (c # cs) then Some 0 else None)"

text \<open>\<^verbatim>\<open>ws[-2:]\<close>: the last two elements, or all of them when there are fewer.\<close>

definition last2 :: "'a list \<Rightarrow> 'a list" where
  "last2 ws = drop (length ws - 2) ws"

section \<open>Intent detection\<close>

text \<open>
  The first lines of \<^verbatim>\<open>TourismAgent.handle_request\<close>:
  \<^verbatim>\<open>
  text = user_input.lower()
  wants_weather = ("temperature" in text) or ("weather" in text)
  wants_places = any(w in text for w in ["place", "places", "visit", "attraction", "sightseeing"])
  if not wants_weather and not wants_places:
      wants_places = True
  \<close>
\<close>

record intent =
  wants_weather :: bool
  wants_places :: bool

definition places_keywords :: "string list" where
  "places_keywords = [''place'', ''places'', ''visit'', ''attraction'', ''sightseeing'']"

definition detect_intent :: "string \<Rightarrow> intent" where
  "detect_intent user_input =
     (let text = lower user_input;
          ww = (contains ''temperature'' text \<or> contains ''weather'' text);
          wp = list_ex (\<lambda>w. contains w text) places_keywords
      in \<lparr>wants_weather = ww, wants_places = (if \<not> ww \<and> \<not> wp then True else wp)\<rparr>)"

section \<open>Place extraction\<close>

text \<open>
  \<^verbatim>\<open>TourismAgent._extract_place\<close>, one definition for each pass of the function body.

  The anchor:
  \<^verbatim>\<open>
  text = user_input.strip()
  lower = text.lower()
  if " to " in lower:
      idx = lower.rfind(" to ")
      candidate = text[idx + 4:].strip()
  else:
      candidate = text
  \<close>
\<close>

definition anchor :: "string \<Rightarrow> string" where
  "anchor user_input =
     (let text = strip user_input;
          lower_text = lower text
      in case rfind '' to '' lower_text of
           Some idx \<Rightarrow> strip (drop (idx + 4) text)
         | None \<Rightarrow> text)"

text \<open>
  The loop over the separators, which ends at the first separator found:
  \<^verbatim>\<open>
  for sep in [",", "?", ".", " and ", " what "]:
      lower_cand = candidate.lower()
      if sep in lower_cand:
          candidate = candidate[:lower_cand.index(sep)].strip()
          break
  \<close>
\<close>

definition separators :: "string list" where
  "separators = ['','', ''?'', ''.'', '' and '', '' what '']"

fun cut_at :: "string list \<Rightarrow> string \<Rightarrow> string" where
  "cut_at [] candidate = candidate"
| "cut_at (sep # seps) candidate =
     (let lower_cand = lower candidate
      in case index_of sep lower_cand of
           Some i \<Rightarrow> strip (take i candidate)
         | None \<Rightarrow> cut_at seps candidate)"

text \<open>
  The stop words and the fallback:
  \<^verbatim>\<open>
  words = candidate.split()
  filtered = [w for w in words if w.lower() not in stop_words]
  if filtered:
      candidate = " ".join(filtered)
  else:
      candidate = " ".join(words[-2:])
  \<close>
\<close>

definition stop_words :: "string list" where
  "stop_words =
     [''i'', ''im'', ''i'm'', ''going'', ''go'', ''to'', ''what'', ''is'', ''the'',
      ''there'', ''and'', ''visit'', ''places'', ''place'', ''temperature'',
      ''weather'', ''trip'', ''in'', ''city'', ''are'', ''can'', ''you'',
      ''my'', ''let's'', ''lets'']"

definition strip_stop_words :: "string \<Rightarrow> string" where
  "strip_stop_words candidate =
     (let words = split candidate;
          filtered = filter (\<lambda>w. lower w \<notin> set stop_words) words
      in if filtered \<noteq> [] then join '' '' filtered else join '' '' (last2 words))"

text \<open>
  The cap:
  \<^verbatim>\<open>
  if len(candidate.split()) > 3:
      candidate = " ".join(candidate.split()[-2:])
  \<close>
\<close>

definition cap_length :: "string \<Rightarrow> string" where
  "cap_length candidate =
     (if length (split candidate) > 3 then join '' '' (last2 (split candidate)) else candidate)"

definition extract_place :: "string \<Rightarrow> string" where
  "extract_place user_input =
     cap_length (strip_stop_words (cut_at separators (anchor user_input)))"

section \<open>The three agents\<close>

text \<open>
  Each agent sends one HTTP request and reads the JSON answer. The providers are a
  parameter: for each request, the decoded answer, or \<open>None\<close> when the agent's call
  raises anything but \<^verbatim>\<open>GeocodingError\<close>: the request itself, \<^verbatim>\<open>raise_for_status\<close>, the
  decoding, or the reading of a field (a hit without numeric coordinates, a probability
  that is no number). A coordinate is a \<^typ>\<open>real\<close>. Of a geocoding hit the model keeps
  the two coordinates and the optional \<^verbatim>\<open>display_name\<close>; of the weather answer the
  current temperature, as the text Python prints for it, and the hourly precipitation
  probabilities; of each places element its optional tag \<^verbatim>\<open>name\<close>.
\<close>

datatype error = GeocodingError | UpstreamError

record geo_hit =
  hit_lat :: real
  hit_lon :: real
  hit_display_name :: "string option"

record weather_data =
  current_temperature :: "string option"
  precipitation_probability :: "int list"

type_synonym element = "string option"

record providers =
  nominatim :: "string \<Rightarrow> geo_hit list option"
  open_meteo :: "real \<Rightarrow> real \<Rightarrow> weather_data option"
  overpass :: "real \<Rightarrow> real \<Rightarrow> element list option"

text \<open>
  \<^verbatim>\<open>GeocodingAgent.geocode\<close>: no result raises \<^verbatim>\<open>GeocodingError\<close>; otherwise the first
  hit, its display name (the queried place when the hit has none) cut at the first comma.
\<close>

definition geocode :: "providers \<Rightarrow> string \<Rightarrow> error + (real \<times> real \<times> string)" where
  "geocode P place =
     (case nominatim P place of
        None \<Rightarrow> Inl UpstreamError
      | Some results \<Rightarrow>
          (case results of
             [] \<Rightarrow> Inl GeocodingError
           | first # _ \<Rightarrow>
               (let display_name = (case hit_display_name first of Some d \<Rightarrow> d | None \<Rightarrow> place);
                    short_name = takeWhile (\<lambda>c. c \<noteq> CHR '','') display_name
                in Inr (hit_lat first, hit_lon first, short_name))))"

text \<open>
  \<^verbatim>\<open>WeatherAgent.get_weather\<close>:
  \<^verbatim>\<open>rain_chance = max(precip_list) if precip_list else None\<close>.
\<close>

definition get_weather :: "providers \<Rightarrow> real \<Rightarrow> real \<Rightarrow> error + (string option \<times> int option)" where
  "get_weather P lat lon =
     (case open_meteo P lat lon of
        None \<Rightarrow> Inl UpstreamError
      | Some data \<Rightarrow>
          Inr (current_temperature data,
               (case precipitation_probability data of
                  [] \<Rightarrow> None
                | p # ps \<Rightarrow> Some (fold max ps p))))"

text \<open>
  \<^verbatim>\<open>PlacesAgent.get_places\<close>, the loop:
  \<^verbatim>\<open>
  names = []
  for el in data.get("elements", []):
      name = el.get("tags", {}).get("name")
      if name and name not in names:
          names.append(name)
      if len(names) >= limit:
          break
  return names
  \<close>
\<close>

fun collect_names :: "element list \<Rightarrow> int \<Rightarrow> string list \<Rightarrow> string list" where
  "collect_names [] limit names = names"
| "collect_names (el # els) limit names =
     (let names' = (case el of
                      Some name \<Rightarrow> if name \<noteq> [] \<and> name \<notin> set names then names @ [name] else names
                    | None \<Rightarrow> names)
      in if int (length names') \<ge> limit then names' else collect_names els limit names')"

definition get_places :: "providers \<Rightarrow> real \<Rightarrow> real \<Rightarrow> int \<Rightarrow> error + string list" where
  "get_places P lat lon limit =
     (case overpass P lat lon of
        None \<Rightarrow> Inl UpstreamError
      | Some elements \<Rightarrow> Inr (collect_names elements limit []))"

section \<open>Composing the reply\<close>

text \<open>
  What an f-string prints: the decimal digits of an integer, and \<^verbatim>\<open>None\<close> for an absent
  value. The degree sign is its two bytes in UTF-8.
\<close>

definition digit_char :: "nat \<Rightarrow> char" where
  "digit_char d = ''0123456789'' ! d"

fun str_nat :: "nat \<Rightarrow> string" where
  "str_nat n = (if n < 10 then [digit_char n] else str_nat (n div 10) @ [digit_char (n mod 10)])"

declare str_nat.simps [simp del]

definition str_int :: "int \<Rightarrow> string" where
  "str_int i = (if i < 0 then CHR ''-'' # str_nat (nat (- i)) else str_nat (nat i))"

definition fmt_temp :: "string option \<Rightarrow> string" where
  "fmt_temp temp = (case temp of None \<Rightarrow> ''None'' | Some t \<Rightarrow> t)"

definition fmt_rain :: "int option \<Rightarrow> string" where
  "fmt_rain rain_chance = (case rain_chance of None \<Rightarrow> ''None'' | Some r \<Rightarrow> str_int r)"

definition degree_C :: string where
  "degree_C = [CHR 0xC2, CHR 0xB0, CHR ''C'']"

definition full_sentence :: "string \<Rightarrow> string \<Rightarrow> string \<Rightarrow> string" where
  "full_sentence display_name temp rain =
     ''In '' @ display_name @ '' it's currently '' @ temp @ degree_C
       @ '' with a chance of '' @ rain @ ''% to rain.''"

definition temp_sentence :: "string \<Rightarrow> string \<Rightarrow> string" where
  "temp_sentence display_name temp =
     ''In '' @ display_name @ '' it's currently '' @ temp @ degree_C @ ''.''"

definition weather_apology :: "string \<Rightarrow> string" where
  "weather_apology display_name = ''Sorry, I couldn't get the weather for '' @ display_name @ ''.''"

definition places_apology :: "string \<Rightarrow> string" where
  "places_apology display_name =
     ''Sorry, I couldn't find tourist places near '' @ display_name @ ''.''"

definition places_prefix :: "bool \<Rightarrow> string \<Rightarrow> string" where
  "places_prefix ww display_name =
     (if ww then ''And these are the places you can go:''
      else ''In '' @ display_name @ '' these are the places you can go,'')"

definition newline :: string where
  "newline = [CHR 0x0A]"

section \<open>The orchestrator\<close>

text \<open>
  \<^verbatim>\<open>TourismAgent.handle_request\<close>. The result is the list of the provider requests
  made, in order, and either the reply or the exception that leaves the function.
\<close>

datatype call = Geocode string | Weather real real | Places real real int

text \<open>The branch \<^verbatim>\<open>if wants_weather and not wants_places\<close>.\<close>

definition weather_only :: "providers \<Rightarrow> real \<Rightarrow> real \<Rightarrow> string \<Rightarrow> call list \<times> (error + string)" where
  "weather_only P lat lon display_name =
     (case get_weather P lat lon of
        Inl e \<Rightarrow> ([Weather lat lon], Inl e)
      | Inr (temp, rain_chance) \<Rightarrow>
          ([Weather lat lon],
           Inr (if temp \<noteq> None \<and> rain_chance \<noteq> None
                  then full_sentence display_name (fmt_temp temp) (fmt_rain rain_chance)
                else if temp \<noteq> None
                  then temp_sentence display_name (fmt_temp temp)
                else weather_apology display_name)))"

text \<open>The statement \<^verbatim>\<open>if wants_weather:\<close> of the other branch; it starts from no part.\<close>

definition weather_part ::
  "providers \<Rightarrow> bool \<Rightarrow> real \<Rightarrow> real \<Rightarrow> string \<Rightarrow> call list \<times> (error + string list)" where
  "weather_part P ww lat lon display_name =
     (if ww then
        (case get_weather P lat lon of
           Inl e \<Rightarrow> ([Weather lat lon], Inl e)
         | Inr (temp, rain_chance) \<Rightarrow>
             ([Weather lat lon],
              Inr [full_sentence display_name (fmt_temp temp) (fmt_rain rain_chance)]))
      else ([], Inr []))"

text \<open>The statement \<^verbatim>\<open>if wants_places:\<close>, which appends to the parts so far.\<close>

definition places_part ::
  "providers \<Rightarrow> bool \<Rightarrow> bool \<Rightarrow> real \<Rightarrow> real \<Rightarrow> string \<Rightarrow> string list
     \<Rightarrow> call list \<times> (error + string list)" where
  "places_part P ww wp lat lon display_name parts =
     (if wp then
        (case get_places P lat lon 5 of
           Inl e \<Rightarrow> ([Places lat lon 5], Inl e)
         | Inr places \<Rightarrow>
             ([Places lat lon 5],
              Inr (parts @
                   [if places \<noteq> []
                    then places_prefix ww display_name @ newline @ join newline places
                    else places_apology display_name])))
      else ([], Inr parts))"

definition combined ::
  "providers \<Rightarrow> bool \<Rightarrow> bool \<Rightarrow> real \<Rightarrow> real \<Rightarrow> string \<Rightarrow> call list \<times> (error + string)" where
  "combined P ww wp lat lon display_name =
     (case weather_part P ww lat lon display_name of
        (calls1, Inl e) \<Rightarrow> (calls1, Inl e)
      | (calls1, Inr parts1) \<Rightarrow>
          (case places_part P ww wp lat lon display_name parts1 of
             (calls2, Inl e) \<Rightarrow> (calls1 @ calls2, Inl e)
           | (calls2, Inr parts2) \<Rightarrow> (calls1 @ calls2, Inr (join '' '' parts2))))"

definition handle_request :: "providers \<Rightarrow> string \<Rightarrow> call list \<times> (error + string)" where
  "handle_request P user_input =
     (let i = detect_intent user_input;
          place = extract_place user_input
      in if place = [] then ([], Inr ''Please tell me which place you want to go.'')
         else
           (case geocode P place of
              Inl GeocodingError \<Rightarrow> ([Geocode place], Inr ''I don't know this place exist.'')
            | Inl UpstreamError \<Rightarrow> ([Geocode place], Inl UpstreamError)
            | Inr (lat, lon, display_name) \<Rightarrow>
                (case (if wants_weather i \<and> \<not> wants_places i
                       then weather_only P lat lon display_name
                       else combined P (wants_weather i) (wants_places i) lat lon display_name) of
                   (calls, r) \<Rightarrow> (Geocode place # calls, r))))"

section \<open>Notions used in the statements\<close>

text \<open>A token of \<^verbatim>\<open>str.split\<close>: a non-empty text without whitespace.\<close>

definition token :: "string \<Rightarrow> bool" where
  "token w = (w \<noteq> [] \<and> list_all (\<lambda>c. \<not> is_space c) w)"

text \<open>
  The specification of the places list, to compare \<^const>\<open>collect_names\<close> with: the
  non-empty names of the provider's elements, in the provider's order, and of a list its
  elements in the order of their first occurrence, those of \<open>seen\<close> left out.
\<close>

fun named :: "element list \<Rightarrow> string list" where
  "named [] = []"
| "named (None # els) = named els"
| "named (Some n # els) = (if n \<noteq> [] then n # named els else named els)"

primrec keep_first :: "'a list \<Rightarrow> 'a list \<Rightarrow> 'a list" where
  "keep_first seen [] = []"
| "keep_first seen (x # xs) =
     (if x \<in> set seen then keep_first seen xs else x # keep_first (seen @ [x]) xs)"

text \<open>
  Providers for the examples: the geocoder knows every place but \<^verbatim>\<open>Atlantis\<close>, at the
  coordinates (1, 2); the weather and the places answers are given.
\<close>

definition sample_providers :: "string option \<Rightarrow> int list \<Rightarrow> element list \<Rightarrow> providers" where
  "sample_providers temp precip els =
     \<lparr>nominatim = (\<lambda>q. if q = ''Atlantis'' then Some []
                        else Some [\<lparr>hit_lat = 1, hit_lon = 2,
                                    hit_display_name = Some (q @ '', France'')\<rparr>]),
      open_meteo = (\<lambda>lat lon. Some \<lparr>current_temperature = temp,
                                      precipitation_probability = precip\<rparr>),
      overpass = (\<lambda>lat lon. Some els)\<rparr>"

section \<open>Facts about the text primitives\<close>

text \<open>
  The search functions agree with the library's notion of a contiguous piece,
  \<^const>\<open>sublist\<close>: \<open>sublist xs ys\<close> holds when \<open>ys = ps @ xs @ ss\<close> for some \<open>ps\<close>, \<open>ss\<close>.
\<close>

lemma contains_sublist: "contains sub s = sublist sub s"
  by (induction s) (simp_all add: sublist_Cons_right)




lemma lower_append: "lower (xs @ ys) = lower xs @ lower ys"
  by (simp add: lower_def)





text \<open>Splitting at whitespace, joining with a space, trimming.\<close>

lemma split_from_no_space:
  "list_all (\<lambda>c. \<not> is_space c) w \<Longrightarrow> split_from cur (w @ rest) = split_from (cur @ w) rest"
  by (induction w arbitrary: cur) simp_all

lemma split_from_tokens:
  "list_all (\<lambda>c. \<not> is_space c) cur \<Longrightarrow> list_all token (split_from cur s)"
  by (induction cur s rule: split_from.induct) (simp_all add: token_def)

lemma split_tokens: "list_all token (split s)"
  by (simp add: split_def split_from_tokens)



lemma split_token: "token w \<Longrightarrow> split_from [] w = [w]"
  using split_from_no_space [of w "[]" "[]"] by (simp add: token_def)

lemma space_is_space: "is_space CHR '' ''"
  by (simp add: is_space_def)

lemma split_join: "list_all token ws \<Longrightarrow> split (join '' '' ws) = ws"
proof (induction ws rule: induct_list012)
  case 1
  then show ?case by (simp add: split_def)
next
  case (2 w)
  then show ?case by (simp add: split_def split_token)
next
  case (3 w v ws)
  from "3.prems" have w: "token w" and rest: "list_all token (v # ws)" by simp_all
  from w have "split_from [] (w @ CHR '' '' # join '' '' (v # ws))
      = split_from w (CHR '' '' # join '' '' (v # ws))"
    using split_from_no_space [of w "[]"] by (simp add: token_def)
  also from w have "\<dots> = w # split_from [] (join '' '' (v # ws))"
    by (simp add: space_is_space token_def)
  finally show ?case using "3.IH"(2) [OF rest] by (simp add: split_def)
qed


lemma last2_tokens: "list_all token ws \<Longrightarrow> list_all token (last2 ws)"
  by (simp add: last2_def list_all_iff) (meson in_set_dropD)

lemma length_last2: "length (last2 ws) = min 2 (length ws)"
  by (simp add: last2_def)

lemma last2_Nil_iff: "last2 ws = [] \<longleftrightarrow> ws = []"
  by (cases ws) (auto simp: last2_def)

lemma filter_tokens: "list_all token ws \<Longrightarrow> list_all token (filter P ws)"
  by (simp add: list_all_iff)




section \<open>Intent detection: the claims\<close>

text \<open>
  Claim C3. For every query text, \<open>wants_weather\<close> holds exactly when the lower-cased text
  contains \<^verbatim>\<open>weather\<close> or \<^verbatim>\<open>temperature\<close>; \<open>wants_places\<close> holds exactly when it contains
  one of \<^verbatim>\<open>place\<close>, \<^verbatim>\<open>places\<close>, \<^verbatim>\<open>visit\<close>, \<^verbatim>\<open>attraction\<close>, \<^verbatim>\<open>sightseeing\<close>, or when no
  weather keyword occurs either (the forced default); so the two flags are never both false.
\<close>

theorem intent_classification:
  "(wants_weather (detect_intent t) =
      (sublist ''weather'' (lower t) \<or> sublist ''temperature'' (lower t)))
   \<and> (wants_places (detect_intent t) =
      ((sublist ''place'' (lower t) \<or> sublist ''places'' (lower t) \<or> sublist ''visit'' (lower t)
         \<or> sublist ''attraction'' (lower t) \<or> sublist ''sightseeing'' (lower t))
       \<or> \<not> (sublist ''weather'' (lower t) \<or> sublist ''temperature'' (lower t))))
   \<and> (wants_weather (detect_intent t) \<or> wants_places (detect_intent t))"
  by (auto simp: detect_intent_def Let_def places_keywords_def contains_sublist)

theorem intent_classification_witness:
  "\<not> (sublist ''weather'' (lower ''Paris'') \<or> sublist ''temperature'' (lower ''Paris''))
   \<and> \<not> wants_weather (detect_intent ''Paris'')
   \<and> wants_places (detect_intent ''Paris'')"
  using intent_classification [of "''Paris''"]
  by (simp add: lower_def lower_char_def sublist_code(3))

section \<open>Place extraction: the claims\<close>

subsection \<open>The anchor\<close>







subsection \<open>The cut at a separator\<close>






subsection \<open>Stop words, fallback and cap\<close>

lemma cap_length_join:
  "list_all token fs \<Longrightarrow>
     cap_length (join '' '' fs) = (if length fs > 3 then join '' '' (last2 fs) else join '' '' fs)"
  by (simp add: cap_length_def split_join)

lemma extract_place_cases:
  fixes s :: string
  defines "ws \<equiv> split (cut_at separators (anchor s))"
  defines "fs \<equiv> filter (\<lambda>w. lower w \<notin> set stop_words) ws"
  shows "extract_place s =
           (if fs = [] then join '' '' (last2 ws)
            else if length fs > 3 then join '' '' (last2 fs)
            else join '' '' fs)"
proof -
  have tw: "list_all token ws" by (simp add: ws_def split_tokens)
  then have tf: "list_all token fs" by (simp add: fs_def filter_tokens)
  show ?thesis
  proof (cases "fs = []")
    case True
    have "length (last2 ws) \<le> 3" by (simp add: length_last2)
    with True show ?thesis
      using cap_length_join [OF last2_tokens [OF tw]]
      by (simp add: extract_place_def strip_stop_words_def Let_def ws_def [symmetric] fs_def [symmetric])
  next
    case False
    then show ?thesis
      using cap_length_join [OF tf]
      by (simp add: extract_place_def strip_stop_words_def Let_def ws_def [symmetric] fs_def [symmetric])
  qed
qed

lemma extract_place_tokens:
  "\<exists>ts. list_all token ts \<and> length ts \<le> 3 \<and> extract_place s = join '' '' ts
        \<and> (ts = [] \<longleftrightarrow> split (cut_at separators (anchor s)) = [])"
proof -
  let ?ws = "split (cut_at separators (anchor s))"
  let ?fs = "filter (\<lambda>w. lower w \<notin> set stop_words) ?ws"
  have tw: "list_all token ?ws" by (simp add: split_tokens)
  then have tf: "list_all token ?fs" by (simp add: filter_tokens)
  consider (a) "?fs = []" | (b) "?fs \<noteq> []" "length ?fs > 3" | (c) "?fs \<noteq> []" "length ?fs \<le> 3"
    by linarith
  then show ?thesis
  proof cases
    case a
    then have "extract_place s = join '' '' (last2 ?ws)" by (simp add: extract_place_cases)
    with last2_tokens [OF tw] show ?thesis
      by (intro exI [of _ "last2 ?ws"]) (simp add: length_last2 last2_Nil_iff)
  next
    case b
    then have "extract_place s = join '' '' (last2 ?fs)" by (simp add: extract_place_cases)
    moreover from b have "?ws \<noteq> []" by auto
    ultimately show ?thesis using last2_tokens [OF tf] b
      by (intro exI [of _ "last2 ?fs"]) (simp add: length_last2 last2_Nil_iff)
  next
    case c
    then have "extract_place s = join '' '' ?fs" by (simp add: extract_place_cases)
    moreover from c have "?ws \<noteq> []" by auto
    ultimately show ?thesis using tf c
      by (intro exI [of _ "?fs"]) simp
  qed
qed

lemma extract_place_at_most_3: "length (split (extract_place s)) \<le> 3"
proof -
  from extract_place_tokens [of s] obtain ts where
    "list_all token ts" "length ts \<le> 3" "extract_place s = join '' '' ts" by blast
  then show ?thesis by (simp add: split_join)
qed


text \<open>
  Claim C6. With \<open>ws\<close> the tokens of the candidate before the stop words are removed and
  \<open>fs\<close> those of them that are no stop words: when \<open>fs\<close> is empty, the candidate is the
  last two tokens of \<open>ws\<close>; otherwise it is \<open>fs\<close>, of which only the last two are kept
  when there are more than three. The tokens are joined with one space, and the returned
  candidate never has more than three tokens.
\<close>

theorem fallback_and_cap:
  "(let ws = split (cut_at separators (anchor s));
        fs = filter (\<lambda>w. lower w \<notin> set stop_words) ws
    in extract_place s =
         (if fs = [] then join '' '' (last2 ws)
          else if 3 < length fs then join '' '' (last2 fs)
          else join '' '' fs))
   \<and> length (split (extract_place s)) \<le> 3"
  using extract_place_cases [of s] extract_place_at_most_3 [of s] by (simp add: Let_def)

theorem fallback_and_cap_witness:
  "filter (\<lambda>w. lower w \<notin> set stop_words) (split (cut_at separators (anchor ''what is the weather''))) = []
   \<and> extract_place ''what is the weather'' = ''the weather''
   \<and> 3 < length (filter (\<lambda>w. lower w \<notin> set stop_words)
                    (split (cut_at separators (anchor ''Rio de Janeiro old town''))))
   \<and> extract_place ''Rio de Janeiro old town'' = ''old town''
   \<and> length (split (extract_place ''Rio de Janeiro old town'')) \<le> 3"
proof -
  have w1: "split (cut_at separators (anchor ''what is the weather'')) = [''what'', ''is'', ''the'', ''weather'']"
    by (simp add: separators_def anchor_def strip_def split_def is_space_def lower_def lower_char_def)
  have w2: "split (cut_at separators (anchor ''Rio de Janeiro old town''))
      = [''Rio'', ''de'', ''Janeiro'', ''old'', ''town'']"
    by (simp add: separators_def anchor_def strip_def split_def is_space_def lower_def lower_char_def)
  have f1: "filter (\<lambda>w. lower w \<notin> set stop_words) [''what'', ''is'', ''the'', ''weather''] = []"
    by (simp add: stop_words_def lower_def lower_char_def)
  have f2: "filter (\<lambda>w. lower w \<notin> set stop_words) [''Rio'', ''de'', ''Janeiro'', ''old'', ''town'']
      = [''Rio'', ''de'', ''Janeiro'', ''old'', ''town'']"
    by (simp add: stop_words_def lower_def lower_char_def)
  have e1: "extract_place ''what is the weather'' = ''the weather''"
    using fallback_and_cap [of "''what is the weather''"] unfolding Let_def w1 f1
    by (simp add: last2_def)
  have e2: "extract_place ''Rio de Janeiro old town'' = ''old town''
      \<and> length (split (extract_place ''Rio de Janeiro old town'')) \<le> 3"
    using fallback_and_cap [of "''Rio de Janeiro old town''"] unfolding Let_def w2 f2
    by (simp add: last2_def split_def is_space_def)
  from e1 e2 show ?thesis unfolding w1 w2 f1 f2 by (simp add: split_def is_space_def)
qed

subsection \<open>The empty candidate\<close>









section \<open>Facts about the agents and the orchestrator\<close>

text \<open>The loop of \<^verbatim>\<open>get_places\<close> against its specification.\<close>

lemma collect_names_distinct:
  "distinct names \<Longrightarrow> distinct (collect_names els limit names)"
  by (induction els limit names rule: collect_names.induct) (auto simp: Let_def split: option.splits)

lemma collect_names_length:
  "int (length names) < limit \<Longrightarrow> int (length (collect_names els limit names)) \<le> limit"
  by (induction els limit names rule: collect_names.induct) (auto simp: Let_def split: option.splits)

lemma set_keep_first: "set (keep_first seen xs) = set xs - set seen"
  by (induction xs arbitrary: seen) auto

lemma distinct_keep_first: "distinct (keep_first seen xs)"
  by (induction xs arbitrary: seen) (auto simp: set_keep_first)

lemma subseq_keep_first: "subseq (keep_first seen xs) xs"
  by (induction xs arbitrary: seen) auto

lemma collect_names_take:
  "int (length names) < limit \<Longrightarrow>
     collect_names els limit names = take (nat limit) (names @ keep_first names (named els))"
proof (induction els arbitrary: names)
  case Nil
  then show ?case by simp
next
  case (Cons el els)
  show ?case
  proof (cases "\<exists>n. el = Some n \<and> n \<noteq> [] \<and> n \<notin> set names")
    case True
    then obtain n where n: "el = Some n" "n \<noteq> []" "n \<notin> set names" by blast
    show ?thesis
    proof (cases "limit \<le> int (length names) + 1")
      case True
      with Cons.prems have "nat limit = length names + 1" by simp
      with n True show ?thesis by (simp add: Let_def)
    next
      case False
      then have "int (length (names @ [n])) < limit" by simp
      from Cons.IH [OF this] n False show ?thesis by (simp add: Let_def)
    qed
  next
    case False
    then have same: "(case el of Some name \<Rightarrow> if name \<noteq> [] \<and> name \<notin> set names then names @ [name] else names
                      | None \<Rightarrow> names) = names"
      by (auto split: option.splits)
    from False have k: "keep_first names (named (el # els)) = keep_first names (named els)"
      by (cases el) auto
    from Cons.IH [OF Cons.prems] Cons.prems same k show ?thesis
      by (simp add: Let_def del: named.simps)
  qed
qed

lemma collect_names_low_limit:
  "limit \<le> 0 \<Longrightarrow> \<exists>k. collect_names els limit [] = take k (keep_first [] (named els))"
proof (cases els)
  case Nil
  then show ?thesis by simp
next
  case (Cons el els')
  assume l: "limit \<le> 0"
  show ?thesis
  proof (cases "\<exists>n. el = Some n \<and> n \<noteq> []")
    case True
    then obtain n where "el = Some n" "n \<noteq> []" by blast
    with Cons l have "collect_names els limit [] = take 1 (keep_first [] (named els))"
      by (simp add: Let_def)
    then show ?thesis by blast
  next
    case False
    with Cons l have "collect_names els limit [] = take 0 (keep_first [] (named els))"
      by (cases el) (auto simp: Let_def)
    then show ?thesis by blast
  qed
qed

lemma collect_names_prefix:
  "\<exists>k. collect_names els limit [] = take k (keep_first [] (named els))"
proof (cases "0 < limit")
  case True
  then show ?thesis using collect_names_take [of "[]" limit els] by auto
next
  case False
  then show ?thesis using collect_names_low_limit [of limit els] by simp
qed

text \<open>The branches of \<^verbatim>\<open>handle_request\<close>, one lemma each.\<close>

lemma geocode_not_found_iff: "geocode P place = Inl GeocodingError \<longleftrightarrow> nominatim P place = Some []"
  by (auto simp: geocode_def Let_def split: option.splits list.splits)

lemma handle_request_empty:
  "extract_place s = [] \<Longrightarrow>
     handle_request P s = ([], Inr ''Please tell me which place you want to go.'')"
  by (simp add: handle_request_def Let_def)

lemma handle_request_not_found:
  "extract_place s \<noteq> [] \<Longrightarrow> geocode P (extract_place s) = Inl GeocodingError \<Longrightarrow>
     handle_request P s = ([Geocode (extract_place s)], Inr ''I don't know this place exist.'')"
  by (simp add: handle_request_def Let_def)

lemma handle_request_weather_only:
  assumes "extract_place s \<noteq> []"
    and "geocode P (extract_place s) = Inr (lat, lon, dn)"
    and "wants_weather (detect_intent s)" and "\<not> wants_places (detect_intent s)"
    and "get_weather P lat lon = Inr (temp, rain)"
  shows "handle_request P s =
           ([Geocode (extract_place s), Weather lat lon],
            Inr (if temp \<noteq> None \<and> rain \<noteq> None
                   then full_sentence dn (fmt_temp temp) (fmt_rain rain)
                 else if temp \<noteq> None then temp_sentence dn (fmt_temp temp)
                 else weather_apology dn))"
  using assms by (simp add: handle_request_def Let_def weather_only_def)

lemma handle_request_combined:
  assumes "extract_place s \<noteq> []"
    and "geocode P (extract_place s) = Inr (lat, lon, dn)"
    and "\<not> (wants_weather (detect_intent s) \<and> \<not> wants_places (detect_intent s))"
    and "wants_weather (detect_intent s) \<longrightarrow> get_weather P lat lon = Inr (temp, rain)"
    and "get_places P lat lon 5 = Inr places"
  shows "handle_request P s =
           (Geocode (extract_place s)
              # (if wants_weather (detect_intent s) then [Weather lat lon] else [])
              @ [Places lat lon 5],
            Inr (join '' ''
                  ((if wants_weather (detect_intent s)
                    then [full_sentence dn (fmt_temp temp) (fmt_rain rain)] else [])
                   @ [if places \<noteq> []
                      then places_prefix (wants_weather (detect_intent s)) dn @ newline
                             @ join newline places
                      else places_apology dn])))"
proof -
  from assms(3) have wp: "wants_places (detect_intent s)"
    by (auto simp: detect_intent_def Let_def)
  show ?thesis
  proof (cases "wants_weather (detect_intent s)")
    case True
    with assms wp show ?thesis
      by (simp add: handle_request_def Let_def combined_def weather_part_def places_part_def)
  next
    case False
    with assms wp show ?thesis
      by (simp add: handle_request_def Let_def combined_def weather_part_def places_part_def)
  qed
qed

lemma handle_request_places_5:
  "Places lat lon n \<in> set (fst (handle_request P s)) \<Longrightarrow> n = 5"
  by (auto simp: handle_request_def Let_def weather_only_def combined_def weather_part_def places_part_def
      split: if_splits sum.splits error.splits prod.splits)


text \<open>Evaluation of the extractor and of the intent on concrete inputs, and the sample providers.\<close>

lemmas eval_text = strip_def split_def is_space_def lower_def lower_char_def last2_def

lemmas eval_extract = extract_place_def cap_length_def strip_stop_words_def separators_def
  anchor_def stop_words_def eval_text

lemmas eval_intent = detect_intent_def places_keywords_def lower_def lower_char_def

lemma sublist_split_at:
  "c \<notin> set w \<Longrightarrow> sublist w (xs @ c # ys) \<longleftrightarrow> sublist w xs \<or> sublist w ys"
proof -
  assume c: "c \<notin> set w"
  have "\<not> prefix (a # v) (c # ys)" if "w = u @ a # v" for u a v
    using that c by auto
  then have straddle: "sublist w xs" if "w = w1 @ w2" "suffix w1 xs" "prefix w2 (c # ys)" for w1 w2
    using that by (cases w2) auto
  have "sublist w (c # ys) \<longleftrightarrow> w = [] \<or> sublist w ys"
    using c by (cases w) (auto simp: sublist_Cons_right)
  then show ?thesis
    using straddle by (auto simp: sublist_append)
qed

lemma temp_sentence_no_rain:
  "\<not> sublist ''rain'' dn \<Longrightarrow> \<not> sublist ''rain'' t \<Longrightarrow> \<not> sublist ''rain'' (temp_sentence dn t)"
  by (simp add: temp_sentence_def degree_C_def sublist_Cons_right sublist_split_at)


lemma geocode_sample:
  "q \<noteq> ''Atlantis'' \<Longrightarrow> CHR '','' \<notin> set q \<Longrightarrow>
     geocode (sample_providers temp precip els) q = Inr (1, 2, q)"
proof -
  assume q: "q \<noteq> ''Atlantis''" and c: "CHR '','' \<notin> set q"
  from c have "takeWhile (\<lambda>c. c \<noteq> CHR '','') (q @ '', France'') = q"
    by (subst takeWhile_append2) auto
  with q show ?thesis
    by (simp add: geocode_def sample_providers_def Let_def)
qed

lemma geocode_sample_Atlantis:
  "geocode (sample_providers temp precip els) ''Atlantis'' = Inl GeocodingError"
  by (simp add: geocode_def sample_providers_def)

lemma extract_whats_paris: "extract_place ''What's the weather in Paris?'' = ''What's Paris''"
  by (simp add: eval_extract)

lemma intent_whats_paris:
  "detect_intent ''What's the weather in Paris?'' = \<lparr>wants_weather = True, wants_places = False\<rparr>"
  by (simp add: eval_intent)

lemma extract_weather_in_Paris: "extract_place ''weather in Paris'' = ''Paris''"
  by (simp add: eval_extract)

lemma intent_weather_in_Paris:
  "detect_intent ''weather in Paris'' = \<lparr>wants_weather = True, wants_places = False\<rparr>"
  by (simp add: eval_intent)

lemma extract_atlantis: "extract_place ''places to visit in Atlantis'' = ''Atlantis''"
  by (simp add: eval_extract)

lemma extract_Paris: "extract_place ''Paris'' = ''Paris''"
  by (simp add: eval_extract)

lemma intent_Paris:
  "detect_intent ''Paris'' = \<lparr>wants_weather = False, wants_places = True\<rparr>"
  by (simp add: eval_intent)

lemma extract_both: "extract_place ''Paris weather places'' = ''Paris''"
  by (simp add: eval_extract)


lemma intent_both:
  "detect_intent ''Paris weather places'' = \<lparr>wants_weather = True, wants_places = True\<rparr>"
  by (simp add: eval_intent)

lemma get_weather_sample:
  "get_weather (sample_providers temp precip els) lat lon =
     Inr (temp, case precip of [] \<Rightarrow> None | p # ps \<Rightarrow> Some (fold max ps p))"
  by (simp add: get_weather_def sample_providers_def)

lemma get_places_sample:
  "get_places (sample_providers temp precip els) lat lon limit = Inr (collect_names els limit [])"
  by (simp add: get_places_def sample_providers_def)

lemma str_int_40: "str_int 40 = ''40''"
  by (simp add: str_int_def str_nat.simps digit_char_def)

section \<open>The agents and the orchestrator: the claims\<close>

text \<open>
  Claim C7. When the extracted candidate is empty, the reply is the fixed prompt and no
  provider is called. When the geocoder has no result for the candidate, \<^verbatim>\<open>geocode\<close> raises
  \<^verbatim>\<open>GeocodingError\<close>, the reply is exactly \<^verbatim>\<open>I don't know this place exist.\<close>, and the
  geocoding request is the only call made: no weather and no places request.
\<close>

theorem not_found_and_empty:
  "(extract_place s = [] \<longrightarrow>
      handle_request P s = ([], Inr ''Please tell me which place you want to go.''))
   \<and> (extract_place s \<noteq> [] \<and> nominatim P (extract_place s) = Some [] \<longrightarrow>
        geocode P (extract_place s) = Inl GeocodingError
        \<and> handle_request P s = ([Geocode (extract_place s)], Inr ''I don't know this place exist.''))"
  using handle_request_empty [of s P] handle_request_not_found [of s P]
    geocode_not_found_iff [of P "extract_place s"]
  by blast

theorem not_found_and_empty_witness:
  "extract_place ''?'' = []
   \<and> handle_request (sample_providers None [] []) ''?''
       = ([], Inr ''Please tell me which place you want to go.'')
   \<and> extract_place ''places to visit in Atlantis'' \<noteq> []
   \<and> nominatim (sample_providers None [] []) (extract_place ''places to visit in Atlantis'') = Some []
   \<and> handle_request (sample_providers None [] []) ''places to visit in Atlantis''
       = ([Geocode ''Atlantis''], Inr ''I don't know this place exist.'')"
proof -
  have e: "extract_place ''?'' = []" by (simp add: eval_extract)
  have n: "nominatim (sample_providers None [] []) ''Atlantis'' = Some []"
    by (simp add: sample_providers_def)
  from not_found_and_empty [of "''?''" "sample_providers None [] []"]
    not_found_and_empty [of "''places to visit in Atlantis''" "sample_providers None [] []"]
    e n extract_atlantis
  show ?thesis by simp
qed

text \<open>
  Claim C8. In the weather-only branch the geocoder and the weather provider are called,
  and the reply follows the fields of the weather answer: both present, the sentence with
  temperature and chance of rain; temperature only, the sentence with the temperature
  alone, in which the word \<^verbatim>\<open>rain\<close> occurs only if it occurs in the display name or in the
  temperature text; no temperature, the apology with the display name.
\<close>

theorem weather_only_reply:
  assumes "wants_weather (detect_intent s) \<and> \<not> wants_places (detect_intent s)"
    and "extract_place s \<noteq> []"
    and "geocode P (extract_place s) = Inr (lat, lon, dn)"
    and "get_weather P lat lon = Inr (temp, rain)"
  shows "fst (handle_request P s) = [Geocode (extract_place s), Weather lat lon]
     \<and> (temp = Some t \<and> rain = Some r \<longrightarrow>
          snd (handle_request P s) =
            Inr (''In '' @ dn @ '' it's currently '' @ t @ degree_C
                   @ '' with a chance of '' @ str_int r @ ''% to rain.''))
     \<and> (temp = Some t \<and> rain = None \<longrightarrow>
          snd (handle_request P s) = Inr (''In '' @ dn @ '' it's currently '' @ t @ degree_C @ ''.'')
          \<and> (\<not> sublist ''rain'' dn \<and> \<not> sublist ''rain'' t \<longrightarrow>
               (\<forall>reply. snd (handle_request P s) = Inr reply \<longrightarrow> \<not> sublist ''rain'' reply)))
     \<and> (temp = None \<longrightarrow>
          snd (handle_request P s) = Inr (''Sorry, I couldn't get the weather for '' @ dn @ ''.''))"
proof -
  from assms have h: "handle_request P s =
       ([Geocode (extract_place s), Weather lat lon],
        Inr (if temp \<noteq> None \<and> rain \<noteq> None
               then full_sentence dn (fmt_temp temp) (fmt_rain rain)
             else if temp \<noteq> None then temp_sentence dn (fmt_temp temp)
             else weather_apology dn))"
    using handle_request_weather_only [of s P lat lon dn temp rain] by simp
  have a: "temp = Some t \<and> rain = Some r \<longrightarrow>
          snd (handle_request P s) =
            Inr (''In '' @ dn @ '' it's currently '' @ t @ degree_C
                   @ '' with a chance of '' @ str_int r @ ''% to rain.'')"
    by (simp add: h full_sentence_def fmt_temp_def fmt_rain_def)
  have b: "temp = Some t \<and> rain = None \<longrightarrow>
          snd (handle_request P s) = Inr (temp_sentence dn t)"
    by (simp add: h fmt_temp_def)
  have c: "temp = None \<longrightarrow>
          snd (handle_request P s) = Inr (''Sorry, I couldn't get the weather for '' @ dn @ ''.'')"
    by (simp add: h weather_apology_def)
  have ts: "temp_sentence dn t = ''In '' @ dn @ '' it's currently '' @ t @ degree_C @ ''.''"
    by (simp add: temp_sentence_def)
  from b temp_sentence_no_rain [of dn t]
  have b': "temp = Some t \<and> rain = None \<longrightarrow>
          snd (handle_request P s) = Inr (''In '' @ dn @ '' it's currently '' @ t @ degree_C @ ''.'')
          \<and> (\<not> sublist ''rain'' dn \<and> \<not> sublist ''rain'' t \<longrightarrow>
               (\<forall>reply. snd (handle_request P s) = Inr reply \<longrightarrow> \<not> sublist ''rain'' reply))"
    unfolding ts [symmetric] by auto
  have f: "fst (handle_request P s) = [Geocode (extract_place s), Weather lat lon]"
    by (simp add: h)
  from f a b' c show ?thesis by blast
qed

theorem weather_only_reply_witness:
  "snd (handle_request (sample_providers (Some ''21.5'') [3, 40, 12] []) ''weather in Paris'')
     = Inr (''In Paris it's currently 21.5'' @ degree_C @ '' with a chance of 40% to rain.'')
   \<and> snd (handle_request (sample_providers (Some ''21.5'') [] []) ''weather in Paris'')
     = Inr (''In Paris it's currently 21.5'' @ degree_C @ ''.'')
   \<and> \<not> sublist ''rain'' (''In Paris it's currently 21.5'' @ degree_C @ ''.'')
   \<and> snd (handle_request (sample_providers None [] []) ''weather in Paris'')
     = Inr ''Sorry, I couldn't get the weather for Paris.''"
proof -
  have i: "wants_weather (detect_intent ''weather in Paris'')
      \<and> \<not> wants_places (detect_intent ''weather in Paris'')"
    by (simp add: intent_weather_in_Paris)
  have e: "extract_place ''weather in Paris'' \<noteq> []"
    by (simp add: extract_weather_in_Paris)
  have g: "geocode (sample_providers temp precip els) (extract_place ''weather in Paris'')
      = Inr (1, 2, ''Paris'')" for temp precip els
    by (simp add: extract_weather_in_Paris geocode_sample)
  have w1: "get_weather (sample_providers (Some ''21.5'') [3, 40, 12] []) 1 2 = Inr (Some ''21.5'', Some 40)"
    by (simp add: get_weather_sample)
  have w2: "get_weather (sample_providers (Some ''21.5'') [] []) 1 2 = Inr (Some ''21.5'', None)"
    by (simp add: get_weather_sample)
  have w3: "get_weather (sample_providers None [] []) 1 2 = Inr (None, None)"
    by (simp add: get_weather_sample)
  have nr: "\<not> sublist ''rain'' ''Paris'' \<and> \<not> sublist ''rain'' ''21.5''"
    by (simp add: sublist_code(3))
  from weather_only_reply [OF i e g w1, of "''21.5''" 40]
  have r1: "snd (handle_request (sample_providers (Some ''21.5'') [3, 40, 12] []) ''weather in Paris'')
     = Inr (''In Paris it's currently 21.5'' @ degree_C @ '' with a chance of 40% to rain.'')"
    by (simp add: str_int_40)
  from weather_only_reply [OF i e g w2, of "''21.5''"] nr
  have r2: "snd (handle_request (sample_providers (Some ''21.5'') [] []) ''weather in Paris'')
     = Inr (''In Paris it's currently 21.5'' @ degree_C @ ''.'')
     \<and> \<not> sublist ''rain'' (''In Paris it's currently 21.5'' @ degree_C @ ''.'')"
    by simp
  from weather_only_reply [OF i e g w3]
  have r3: "snd (handle_request (sample_providers None [] []) ''weather in Paris'')
     = Inr ''Sorry, I couldn't get the weather for Paris.''"
    by simp
  from r1 r2 r3 show ?thesis by blast
qed

text \<open>
  Claim C10. In the other branch \<open>wants_places\<close> holds. With \<open>wants_weather\<close>, the weather
  sentence comes first, built from both fields whatever they are (an absent field prints
  as \<^verbatim>\<open>None\<close>), and the places part follows after one space: the list with the prefix
  \<^verbatim>\<open>And these are the places you can go:\<close>, or the apology when the list is empty. Without
  \<open>wants_weather\<close>, the reply is the list with the prefix that names the place, or the
  apology. The places are requested with the cap 5.
\<close>

theorem combined_reply:
  assumes "\<not> (wants_weather (detect_intent s) \<and> \<not> wants_places (detect_intent s))"
    and "extract_place s \<noteq> []"
    and "geocode P (extract_place s) = Inr (lat, lon, dn)"
    and "wants_weather (detect_intent s) \<longrightarrow> get_weather P lat lon = Inr (temp, rain)"
    and "get_places P lat lon 5 = Inr places"
  shows "wants_places (detect_intent s)
     \<and> (wants_weather (detect_intent s) \<and> places \<noteq> [] \<longrightarrow>
          handle_request P s =
            ([Geocode (extract_place s), Weather lat lon, Places lat lon 5],
             Inr ((''In '' @ dn @ '' it's currently '' @ fmt_temp temp @ degree_C
                    @ '' with a chance of '' @ fmt_rain rain @ ''% to rain.'')
                  @ '' '' @ ''And these are the places you can go:'' @ newline
                  @ join newline places)))
     \<and> (wants_weather (detect_intent s) \<and> places = [] \<longrightarrow>
          handle_request P s =
            ([Geocode (extract_place s), Weather lat lon, Places lat lon 5],
             Inr ((''In '' @ dn @ '' it's currently '' @ fmt_temp temp @ degree_C
                    @ '' with a chance of '' @ fmt_rain rain @ ''% to rain.'')
                  @ '' '' @ ''Sorry, I couldn't find tourist places near '' @ dn @ ''.'')))
     \<and> (\<not> wants_weather (detect_intent s) \<and> places \<noteq> [] \<longrightarrow>
          handle_request P s =
            ([Geocode (extract_place s), Places lat lon 5],
             Inr (''In '' @ dn @ '' these are the places you can go,'' @ newline
                  @ join newline places)))
     \<and> (\<not> wants_weather (detect_intent s) \<and> places = [] \<longrightarrow>
          handle_request P s =
            ([Geocode (extract_place s), Places lat lon 5],
             Inr (''Sorry, I couldn't find tourist places near '' @ dn @ ''.'')))
     \<and> fmt_temp None = ''None'' \<and> fmt_rain None = ''None''
     \<and> fmt_temp (Some t) = t \<and> fmt_rain (Some r) = str_int r"
proof -
  note h = handle_request_combined [OF assms(2) assms(3) assms(1) assms(4) assms(5)]
  from assms(1) have wp: "wants_places (detect_intent s)"
    by (auto simp: detect_intent_def Let_def)
  have a: "wants_weather (detect_intent s) \<and> places \<noteq> [] \<longrightarrow>
          handle_request P s =
            ([Geocode (extract_place s), Weather lat lon, Places lat lon 5],
             Inr ((''In '' @ dn @ '' it's currently '' @ fmt_temp temp @ degree_C
                    @ '' with a chance of '' @ fmt_rain rain @ ''% to rain.'')
                  @ '' '' @ ''And these are the places you can go:'' @ newline
                  @ join newline places))"
    by (simp add: h full_sentence_def places_prefix_def)
  have b: "wants_weather (detect_intent s) \<and> places = [] \<longrightarrow>
          handle_request P s =
            ([Geocode (extract_place s), Weather lat lon, Places lat lon 5],
             Inr ((''In '' @ dn @ '' it's currently '' @ fmt_temp temp @ degree_C
                    @ '' with a chance of '' @ fmt_rain rain @ ''% to rain.'')
                  @ '' '' @ ''Sorry, I couldn't find tourist places near '' @ dn @ ''.''))"
    by (simp add: h full_sentence_def places_apology_def)
  have c: "\<not> wants_weather (detect_intent s) \<and> places \<noteq> [] \<longrightarrow>
          handle_request P s =
            ([Geocode (extract_place s), Places lat lon 5],
             Inr (''In '' @ dn @ '' these are the places you can go,'' @ newline
                  @ join newline places))"
    by (simp add: h places_prefix_def)
  have d: "\<not> wants_weather (detect_intent s) \<and> places = [] \<longrightarrow>
          handle_request P s =
            ([Geocode (extract_place s), Places lat lon 5],
             Inr (''Sorry, I couldn't find tourist places near '' @ dn @ ''.''))"
    by (simp add: h places_apology_def)
  have f: "fmt_temp None = ''None'' \<and> fmt_rain None = ''None''
     \<and> fmt_temp (Some t) = t \<and> fmt_rain (Some r) = str_int r"
    by (simp add: fmt_temp_def fmt_rain_def)
  from wp a b c d f show ?thesis by blast
qed

theorem combined_reply_witness:
  "handle_request (sample_providers None [] [Some ''Louvre'', Some ''Tuileries'']) ''Paris weather places''
     = ([Geocode ''Paris'', Weather 1 2, Places 1 2 5],
        Inr (''In Paris it's currently None'' @ degree_C @ '' with a chance of None% to rain.''
             @ '' And these are the places you can go:'' @ newline @ ''Louvre'' @ newline @ ''Tuileries''))
   \<and> handle_request (sample_providers (Some ''21.5'') [40] []) ''Paris weather places''
     = ([Geocode ''Paris'', Weather 1 2, Places 1 2 5],
        Inr (''In Paris it's currently 21.5'' @ degree_C @ '' with a chance of 40% to rain.''
             @ '' Sorry, I couldn't find tourist places near Paris.''))
   \<and> handle_request (sample_providers None [] [Some ''Louvre'', Some ''Tuileries'']) ''Paris''
     = ([Geocode ''Paris'', Places 1 2 5],
        Inr (''In Paris these are the places you can go,'' @ newline @ ''Louvre'' @ newline @ ''Tuileries''))
   \<and> handle_request (sample_providers None [] []) ''Paris''
     = ([Geocode ''Paris''  , Places 1 2 5],
        Inr ''Sorry, I couldn't find tourist places near Paris.'')"
proof -
  have ib: "\<not> (wants_weather (detect_intent ''Paris weather places'')
      \<and> \<not> wants_places (detect_intent ''Paris weather places''))"
    by (simp add: intent_both)
  have ip: "\<not> (wants_weather (detect_intent ''Paris'') \<and> \<not> wants_places (detect_intent ''Paris''))"
    by (simp add: intent_Paris)
  have eb: "extract_place ''Paris weather places'' \<noteq> []" by (simp add: extract_both)
  have ep: "extract_place ''Paris'' \<noteq> []" by (simp add: extract_Paris)
  have gb: "geocode (sample_providers temp precip els) (extract_place ''Paris weather places'')
      = Inr (1, 2, ''Paris'')" for temp precip els
    by (simp add: extract_both geocode_sample)
  have gp: "geocode (sample_providers temp precip els) (extract_place ''Paris'')
      = Inr (1, 2, ''Paris'')" for temp precip els
    by (simp add: extract_Paris geocode_sample)
  have w1: "wants_weather (detect_intent ''Paris weather places'') \<longrightarrow>
      get_weather (sample_providers None [] els) 1 2 = Inr (None, None)" for els
    by (simp add: get_weather_sample)
  have w2: "wants_weather (detect_intent ''Paris weather places'') \<longrightarrow>
      get_weather (sample_providers (Some ''21.5'') [40] els) 1 2 = Inr (Some ''21.5'', Some 40)" for els
    by (simp add: get_weather_sample)
  have w3: "wants_weather (detect_intent ''Paris'') \<longrightarrow>
      get_weather (sample_providers None [] els) 1 2 = Inr (None, None)" for els
    by (simp add: intent_Paris)
  have p1: "get_places (sample_providers temp precip [Some ''Louvre'', Some ''Tuileries'']) 1 2 5
      = Inr [''Louvre'', ''Tuileries'']" for temp precip
    by (simp add: get_places_sample)
  have p2: "get_places (sample_providers temp precip []) 1 2 5 = Inr []" for temp precip
    by (simp add: get_places_sample)
  from combined_reply [OF ib eb gb w1 p1]
  have r1: "handle_request (sample_providers None [] [Some ''Louvre'', Some ''Tuileries'']) ''Paris weather places''
     = ([Geocode ''Paris'', Weather 1 2, Places 1 2 5],
        Inr (''In Paris it's currently None'' @ degree_C @ '' with a chance of None% to rain.''
             @ '' And these are the places you can go:'' @ newline @ ''Louvre'' @ newline @ ''Tuileries''))"
    by (simp add: intent_both extract_both fmt_temp_def fmt_rain_def)
  from combined_reply [OF ib eb gb w2 p2]
  have r2: "handle_request (sample_providers (Some ''21.5'') [40] []) ''Paris weather places''
     = ([Geocode ''Paris'', Weather 1 2, Places 1 2 5],
        Inr (''In Paris it's currently 21.5'' @ degree_C @ '' with a chance of 40% to rain.''
             @ '' Sorry, I couldn't find tourist places near Paris.''))"
    by (simp add: intent_both extract_both fmt_temp_def fmt_rain_def str_int_40)
  from combined_reply [OF ip ep gp w3 p1]
  have r3: "handle_request (sample_providers None [] [Some ''Louvre'', Some ''Tuileries'']) ''Paris''
     = ([Geocode ''Paris'', Places 1 2 5],
        Inr (''In Paris these are the places you can go,'' @ newline @ ''Louvre'' @ newline @ ''Tuileries''))"
    by (simp add: intent_Paris extract_Paris)
  from combined_reply [OF ip ep gp w3 p2]
  have r4: "handle_request (sample_providers None [] []) ''Paris''
     = ([Geocode ''Paris''  , Places 1 2 5],
        Inr ''Sorry, I couldn't find tourist places near Paris.'')"
    by (simp add: intent_Paris extract_Paris)
  from r1 r2 r3 r4 show ?thesis by blast
qed

text \<open>
  Claim C9, as the code has it. For every provider answer and every limit, the names
  returned are distinct and are a prefix of the provider's non-empty names in the order of
  their first occurrence. For a limit of at least 1 they are the first \<open>limit\<close> of these, so
  at most \<open>limit\<close> names. The orchestrator asks with the limit 5 only, and gets at most 5
  distinct names.
\<close>

theorem places_dedup_cap:
  "distinct (collect_names els limit [])
   \<and> (\<exists>k. collect_names els limit [] = take k (keep_first [] (named els)))
   \<and> (0 < limit \<longrightarrow>
        collect_names els limit [] = take (nat limit) (keep_first [] (named els))
        \<and> int (length (collect_names els limit [])) \<le> limit)
   \<and> (get_places P lat lon 5 = Inr places \<longrightarrow> distinct places \<and> length places \<le> 5)
   \<and> (Places lat' lon' n \<in> set (fst (handle_request P s)) \<longrightarrow> n = 5)"
proof -
  have d: "distinct (collect_names els limit [])" for els limit
    by (simp add: collect_names_distinct)
  have l: "int (length (collect_names els 5 [])) \<le> 5" for els
    by (rule collect_names_length) simp
  have g: "get_places P lat lon 5 = Inr places \<longrightarrow> distinct places \<and> length places \<le> 5"
    using d l by (auto simp: get_places_def split: option.splits)
  have t: "0 < limit \<longrightarrow>
        collect_names els limit [] = take (nat limit) (keep_first [] (named els))
        \<and> int (length (collect_names els limit [])) \<le> limit"
    using collect_names_take [of "[]" limit els] collect_names_length [of "[]" limit els] by simp
  from d g t collect_names_prefix [of els limit] handle_request_places_5 [of lat' lon' n P s]
  show ?thesis by blast
qed

theorem places_dedup_cap_witness:
  "(0::int) < 2
   \<and> collect_names [Some ''Louvre'', None, Some [], Some ''Louvre'', Some ''Tuileries'', Some ''Orsay''] 2 []
       = [''Louvre'', ''Tuileries'']
   \<and> get_places (sample_providers None [] [Some ''Louvre'', Some ''Louvre'', Some ''Tuileries'']) 1 2 5
       = Inr [''Louvre'', ''Tuileries'']
   \<and> distinct [''Louvre'', ''Tuileries''] \<and> length [''Louvre'', ''Tuileries''] \<le> 5
   \<and> Places 1 2 5
       \<in> set (fst (handle_request
                      (sample_providers None [] [Some ''Louvre'', Some ''Louvre'', Some ''Tuileries''])
                      ''Paris''))"
proof -
  let ?els = "[Some ''Louvre'', None, Some [], Some ''Louvre'', Some ''Tuileries'', Some ''Orsay'']"
  let ?P = "sample_providers None [] [Some ''Louvre'', Some ''Louvre'', Some ''Tuileries'']"
  have k: "take (nat 2) (keep_first [] (named ?els)) = [''Louvre'', ''Tuileries'']"
    by simp
  have g: "get_places ?P 1 2 5 = Inr [''Louvre'', ''Tuileries'']"
    by (simp add: get_places_sample)
  have c: "Places 1 2 5 \<in> set (fst (handle_request ?P ''Paris''))"
    by (simp add: handle_request_def Let_def intent_Paris extract_Paris geocode_sample
        combined_def weather_part_def places_part_def get_places_sample)
  from places_dedup_cap [of ?els 2 ?P 1 2 "[''Louvre'', ''Tuileries'']" 1 2 5 "''Paris''"] k g c
  show ?thesis by simp
qed

text \<open>
  Claim C9 as stated speaks of every limit. No list has a length of at most -1; and with
  the limit 0 the loop still returns one name, the length being tested after the name is
  appended.
\<close>

theorem places_limit_counterexample:
  "\<not> int (length (collect_names [Some ''Louvre''] (- 1) [])) \<le> - 1
   \<and> collect_names [Some ''Louvre''] 0 [] = [''Louvre'']
   \<and> \<not> int (length (collect_names [Some ''Louvre''] 0 [])) \<le> 0"
  by simp

text \<open>
  Claim C1, as the code has it. For the input \<^verbatim>\<open>What's the weather in Paris?\<close> the intent is
  weather only. The extractor cuts at the question mark and removes the stop words
  \<^verbatim>\<open>the\<close>, \<^verbatim>\<open>weather\<close> and \<^verbatim>\<open>in\<close>; the token \<^verbatim>\<open>What's\<close> is no stop word, so the candidate is
  \<^verbatim>\<open>What's Paris\<close>. When the geocoder resolves this candidate and the weather answer has
  both fields, the reply is the one weather sentence, with the resolved display name.
\<close>

theorem scenario_a:
  "detect_intent ''What's the weather in Paris?'' = \<lparr>wants_weather = True, wants_places = False\<rparr>
   \<and> extract_place ''What's the weather in Paris?'' = ''What's Paris''
   \<and> (geocode P ''What's Paris'' = Inr (lat, lon, dn) \<and> get_weather P lat lon = Inr (Some t, Some r) \<longrightarrow>
        handle_request P ''What's the weather in Paris?''
          = ([Geocode ''What's Paris'', Weather lat lon],
             Inr (''In '' @ dn @ '' it's currently '' @ t @ degree_C
                    @ '' with a chance of '' @ str_int r @ ''% to rain.'')))"
proof -
  have "handle_request P ''What's the weather in Paris?''
          = ([Geocode ''What's Paris'', Weather lat lon],
             Inr (''In '' @ dn @ '' it's currently '' @ t @ degree_C
                    @ '' with a chance of '' @ str_int r @ ''% to rain.''))"
    if g: "geocode P ''What's Paris'' = Inr (lat, lon, dn)"
      and w: "get_weather P lat lon = Inr (Some t, Some r)"
    using handle_request_weather_only [of "''What's the weather in Paris?''" P lat lon dn "Some t" "Some r"]
      g w
    by (simp add: extract_whats_paris intent_whats_paris full_sentence_def fmt_temp_def fmt_rain_def)
  with intent_whats_paris extract_whats_paris show ?thesis by blast
qed

theorem scenario_a_witness:
  "geocode (sample_providers (Some ''21.5'') [3, 40, 12] []) ''What's Paris'' = Inr (1, 2, ''What's Paris'')
   \<and> get_weather (sample_providers (Some ''21.5'') [3, 40, 12] []) 1 2 = Inr (Some ''21.5'', Some 40)
   \<and> handle_request (sample_providers (Some ''21.5'') [3, 40, 12] []) ''What's the weather in Paris?''
       = ([Geocode ''What's Paris'', Weather 1 2],
          Inr (''In What's Paris it's currently 21.5'' @ degree_C @ '' with a chance of 40% to rain.''))"
proof -
  have g: "geocode (sample_providers (Some ''21.5'') [3, 40, 12] []) ''What's Paris'' = Inr (1, 2, ''What's Paris'')"
    by (simp add: geocode_sample)
  have w: "get_weather (sample_providers (Some ''21.5'') [3, 40, 12] []) 1 2 = Inr (Some ''21.5'', Some 40)"
    by (simp add: get_weather_sample)
  from scenario_a [of "sample_providers (Some ''21.5'') [3, 40, 12] []" 1 2 "''What's Paris''" "''21.5''" 40] g w
  show ?thesis by (simp add: str_int_40)
qed

text \<open>Claim C1 as stated fails: the extractor does not yield \<^verbatim>\<open>Paris\<close>.\<close>

theorem scenario_a_counterexample:
  "extract_place ''What's the weather in Paris?'' = ''What's Paris''
   \<and> extract_place ''What's the weather in Paris?'' \<noteq> ''Paris''"
  by (simp add: extract_whats_paris)

end
